theory Spec2Isabelle
  imports Main
begin

section \<open>QueueCTL: the job store of \<open>job_queue.py\<close>\<close>

text \<open>
  The store is the SQLite table \<open>jobs\<close>; every method of \<open>JobQueue\<close> runs one or two
  SQL statements against it. The table is modelled as the list of its rows in insertion
  (rowid) order, each method as a function from the store before the call to the store after
  it, together with what the method returns or raises.

  Timestamps: the code stores \<open>iso(utcnow())\<close>, a fixed-width string
  \<open>%Y-%m-%dT%H:%M:%S.%fZ\<close> that SQLite compares as text, which for such strings is the
  order of the instants. A timestamp is modelled as the integer number of microseconds since
  the epoch (the resolution of \<open>datetime\<close>), without the year bounds of \<open>datetime\<close>.
  The clock read \<open>utcnow()\<close> is the parameter \<open>now\<close> of every operation.
\<close>

subsection \<open>Data model\<close>

type_synonym timestamp = int

text \<open>A Python \<open>str\<close> whose length matters is a list of Unicode code points: slicing
  and \<open>len\<close> count code points. Ids and commands are opaque and compared only for equality.\<close>

type_synonym codepoint = nat
type_synonym pystr = "codepoint list"

datatype job_state = Pending | Processing | Completed | Failed | Dead

text \<open>A row of \<open>jobs\<close>. \<open>attempts\<close> is a count (the spec's integer \<open>\<ge> 0\<close>);
  \<open>max_retries\<close> is whatever integer the payload or the configuration holds.\<close>

record job =
  job_id :: string
  command :: string
  state :: job_state
  attempts :: nat
  max_retries :: int
  created_at :: timestamp
  updated_at :: timestamp
  next_run_at :: timestamp
  last_error :: "pystr option"

type_synonym store = "job list"

text \<open>The dict given to \<open>enqueue\<close>: \<open>None\<close> is an absent key.\<close>

record payload =
  p_id :: "string option"
  p_command :: "string option"
  p_max_retries :: "int option"
  p_attempts :: "nat option"
  p_created_at :: "timestamp option"
  p_updated_at :: "timestamp option"
  p_last_error :: "pystr option"

datatype error = KeyError | IntegrityError | SystemExit

subsection \<open>Configuration (\<open>config.py\<close>)\<close>

text \<open>The rows of the \<open>config\<close> table, read as integers: \<open>Config.get\<close> returns the row's
  value, else \<open>DEFAULTS.get(key)\<close>; \<open>get_int\<close> converts it when it is not \<open>None\<close>.\<close>

type_synonym config = "string \<rightharpoonup> int"

definition DEFAULTS :: config where
  "DEFAULTS = [''max_retries'' \<mapsto> 3, ''backoff_base'' \<mapsto> 2,
               ''worker_poll_interval'' \<mapsto> 1, ''worker_heartbeat_interval'' \<mapsto> 2]"

definition get_int :: "config \<Rightarrow> string \<Rightarrow> int option" where
  "get_int cfg key = (case cfg key of Some v \<Rightarrow> Some v | None \<Rightarrow> DEFAULTS key)"

text \<open>Python's \<open>x or d\<close> on the result of \<open>get_int\<close>: \<open>None\<close> and \<open>0\<close> are both falsy.\<close>

definition or_default :: "int option \<Rightarrow> int \<Rightarrow> int" where
  "or_default x d = (case x of None \<Rightarrow> d | Some v \<Rightarrow> if v = 0 then d else v)"

subsection \<open>Helpers of the model\<close>

text \<open>\<open>timedelta(seconds=d)\<close> in microseconds.\<close>

definition seconds :: "int \<Rightarrow> int" where
  "seconds d = d * 1000000"

text \<open>\<open>str\<close> of an integer, for the generated id \<open>f"job-{int(now.timestamp() * 1000)}"\<close>.\<close>

fun str_nat :: "nat \<Rightarrow> string" where
  "str_nat n =
     (if n < 10 then [''0123456789'' ! n]
      else str_nat (n div 10) @ [''0123456789'' ! (n mod 10)])"

declare str_nat.simps [simp del]

definition str_int :: "int \<Rightarrow> string" where
  "str_int i = (if i < 0 then ''-'' @ str_nat (nat (- i)) else str_nat (nat i))"

text \<open>\<open>int(now.timestamp() * 1000)\<close>: milliseconds, truncated towards zero. (The code
  reads the naive UTC time as local time and multiplies as a float; the offset and the
  rounding of the float are left out.)\<close>

definition epoch_ms :: "timestamp \<Rightarrow> int" where
  "epoch_ms now = (if 0 \<le> now then now div 1000 else - ((- now) div 1000))"

text \<open>\<open>ORDER BY created_at LIMIT 1\<close>: the first row (in rowid order) among those of least
  \<open>created_at\<close>; \<open>None\<close> when there is no row.\<close>

fun oldest :: "job list \<Rightarrow> job option" where
  "oldest [] = None"
| "oldest (j # js) =
     (case oldest js of
        None \<Rightarrow> Some j
      | Some k \<Rightarrow> if created_at j \<le> created_at k then Some j else Some k)"

text \<open>\<open>UPDATE jobs SET ... WHERE id = ?\<close> with a further condition on the row.\<close>

definition update_where :: "(job \<Rightarrow> bool) \<Rightarrow> (job \<Rightarrow> job) \<Rightarrow> store \<Rightarrow> store" where
  "update_where c f s = map (\<lambda>j. if c j then f j else j) s"

subsection \<open>\<open>JobQueue.enqueue\<close>\<close>

definition enqueue :: "config \<Rightarrow> timestamp \<Rightarrow> payload \<Rightarrow> store \<Rightarrow> error + (job \<times> store)" where
  "enqueue cfg now p s =
     (let jid = (case p_id p of
                   None \<Rightarrow> ''job-'' @ str_int (epoch_ms now)
                 | Some i \<Rightarrow> if i = [] then ''job-'' @ str_int (epoch_ms now) else i);
          mr = (case p_max_retries p of
                  Some m \<Rightarrow> m
                | None \<Rightarrow> or_default (get_int cfg ''max_retries'') 3)
      in case p_command p of
           None \<Rightarrow> Inl KeyError
         | Some c \<Rightarrow>
             (let j = \<lparr> job_id = jid, command = c, state = Pending,
                        attempts = (case p_attempts p of None \<Rightarrow> 0 | Some a \<Rightarrow> a),
                        max_retries = mr,
                        created_at = (case p_created_at p of None \<Rightarrow> now | Some t \<Rightarrow> t),
                        updated_at = (case p_updated_at p of None \<Rightarrow> now | Some t \<Rightarrow> t),
                        next_run_at = now,
                        last_error = p_last_error p \<rparr>
              in if jid \<in> set (map job_id s) then Inl IntegrityError
                 else Inr (j, s @ [j])))"

text \<open>The \<open>enqueue\<close> branch of \<open>cli.main\<close>, after the JSON is parsed.\<close>

definition cli_enqueue :: "config \<Rightarrow> timestamp \<Rightarrow> payload \<Rightarrow> store \<Rightarrow> error + (job \<times> store)" where
  "cli_enqueue cfg now p s =
     (if p_command p = None then Inl SystemExit else enqueue cfg now p s)"

subsection \<open>\<open>JobQueue.reserve_job\<close>\<close>

definition eligible :: "timestamp \<Rightarrow> job \<Rightarrow> bool" where
  "eligible now j = ((state j = Pending \<or> state j = Failed) \<and> next_run_at j \<le> now)"

definition claim :: "timestamp \<Rightarrow> job \<Rightarrow> job" where
  "claim now j = j\<lparr>state := Processing, updated_at := now, next_run_at := now\<rparr>"

text \<open>First the \<open>UPDATE\<close> of the row whose id the subquery selects (no row: \<open>rowcount\<close> is 0
  and the method returns \<open>None\<close>), then the \<open>SELECT\<close> of a row in state \<open>processing\<close> whose
  \<open>updated_at\<close> is \<open>now_str\<close>.\<close>

definition reserve_job :: "timestamp \<Rightarrow> store \<Rightarrow> job option \<times> store" where
  "reserve_job now s =
     (case oldest (filter (eligible now) s) of
        None \<Rightarrow> (None, s)
      | Some c \<Rightarrow>
          (let s' = update_where (\<lambda>j. job_id j = job_id c) (claim now) s
           in (oldest (filter (\<lambda>j. state j = Processing \<and> updated_at j = now) s'), s')))"

subsection \<open>\<open>mark_completed\<close>, \<open>mark_failed\<close>, \<open>retry_dead_job\<close>\<close>

definition mark_completed :: "timestamp \<Rightarrow> string \<Rightarrow> store \<Rightarrow> store" where
  "mark_completed now jid s =
     update_where (\<lambda>j. job_id j = jid) (\<lambda>j. j\<lparr>state := Completed, updated_at := now\<rparr>) s"

text \<open>The policy part of \<open>mark_failed\<close> (the lines between reading the configuration and
  opening the connection): the incremented attempts, the new state and the new \<open>next_run_at\<close>.\<close>

definition backoff_policy :: "int \<Rightarrow> timestamp \<Rightarrow> nat \<Rightarrow> int \<Rightarrow> nat \<times> job_state \<times> timestamp" where
  "backoff_policy backoff_base now att mr =
     (let att' = att + 1
      in if int att' > mr then (att', Dead, now)
         else (att', Failed, now + seconds (backoff_base ^ att')))"

definition truncate_error :: "pystr option \<Rightarrow> pystr" where
  "truncate_error error_msg = take 512 (case error_msg of None \<Rightarrow> [] | Some m \<Rightarrow> m)"

definition mark_failed ::
  "config \<Rightarrow> timestamp \<Rightarrow> string \<Rightarrow> nat \<Rightarrow> int \<Rightarrow> pystr option \<Rightarrow> store \<Rightarrow> store" where
  "mark_failed cfg now jid att mr error_msg s =
     (let backoff_base = or_default (get_int cfg ''backoff_base'') 2;
          (att', new_state, nra) = backoff_policy backoff_base now att mr
      in update_where (\<lambda>j. job_id j = jid)
           (\<lambda>j. j\<lparr>state := new_state, attempts := att', updated_at := now,
                  next_run_at := nra, last_error := Some (truncate_error error_msg)\<rparr>) s)"

definition retry_dead_job :: "timestamp \<Rightarrow> string \<Rightarrow> store \<Rightarrow> store" where
  "retry_dead_job now jid s =
     update_where (\<lambda>j. job_id j = jid \<and> state j = Dead)
       (\<lambda>j. j\<lparr>state := Pending, attempts := 0, updated_at := now,
              next_run_at := now, last_error := None\<rparr>) s"

subsection \<open>Schedules, the state machine of the specification, encodings\<close>

text \<open>SQLite serialises the statements of concurrent connections, so one schedule of a round
  of workers calling \<open>reserve_job\<close> is the calls one after the other, each with the clock
  value its \<open>utcnow()\<close> returned.\<close>

fun reserve_round :: "timestamp list \<Rightarrow> store \<Rightarrow> job option list \<times> store" where
  "reserve_round [] s = ([], s)"
| "reserve_round (now # ts) s =
     (let (r, s') = reserve_job now s; (rs, s'') = reserve_round ts s'
      in (r # rs, s''))"

text \<open>The transitions of the state machine as the specification draws it (section 4.1):
  \<open>pending \<rightarrow> processing\<close>, \<open>failed \<rightarrow> processing\<close>, \<open>processing \<rightarrow> completed\<close>,
  \<open>processing \<rightarrow> failed\<close>, \<open>processing \<rightarrow> dead\<close>, \<open>dead \<rightarrow> pending\<close>.\<close>

fun spec_transition :: "job_state \<Rightarrow> job_state \<Rightarrow> bool" where
  "spec_transition Pending Processing = True"
| "spec_transition Failed Processing = True"
| "spec_transition Processing Completed = True"
| "spec_transition Processing Failed = True"
| "spec_transition Processing Dead = True"
| "spec_transition Dead Pending = True"
| "spec_transition _ _ = False"






text \<open>What a call of \<open>enqueue\<close> leaves behind: the row it returns, if it returns, and the
  table after it (an exception leaves the table as it was).\<close>

definition enqueued :: "error + (job \<times> store) \<Rightarrow> job option" where
  "enqueued r = (case r of Inl e \<Rightarrow> None | Inr (j, s') \<Rightarrow> Some j)"


subsection \<open>Example rows and payloads\<close>

definition mk_job :: "string \<Rightarrow> job_state \<Rightarrow> timestamp \<Rightarrow> timestamp \<Rightarrow> job" where
  "mk_job jid st created updated =
     \<lparr> job_id = jid, command = ''true'', state = st, attempts = 0, max_retries = 3,
       created_at = created, updated_at = updated, next_run_at = created,
       last_error = None \<rparr>"

definition mk_payload :: "string option \<Rightarrow> payload" where
  "mk_payload i =
     \<lparr> p_id = i, p_command = Some ''true'', p_max_retries = None, p_attempts = None,
       p_created_at = None, p_updated_at = None, p_last_error = None \<rparr>"

section \<open>Properties\<close>

subsection \<open>Updating rows in place\<close>

lemma length_update_where: "length (update_where c f s) = length s"
  by (simp add: update_where_def)

lemma nth_update_where:
  "k < length s \<Longrightarrow> update_where c f s ! k = (if c (s ! k) then f (s ! k) else s ! k)"
  by (simp add: update_where_def)

lemma update_where_none: "list_all (\<lambda>j. \<not> c j) s \<Longrightarrow> update_where c f s = s"
  by (induction s) (simp_all add: update_where_def)



lemma distinct_ids_same_row:
  "distinct (map job_id s) \<Longrightarrow> j \<in> set s \<Longrightarrow> c \<in> set s \<Longrightarrow> job_id j = job_id c \<Longrightarrow> j = c"
  by (meson distinct_map inj_onD)

text \<open>\<open>mark_failed\<close> with its policy written out.\<close>

lemma mark_failed_unfold:
  "mark_failed cfg now jid att mr error_msg s =
     update_where (\<lambda>j. job_id j = jid)
       (\<lambda>j. j\<lparr>state := (if int (Suc att) > mr then Dead else Failed),
              attempts := Suc att, updated_at := now,
              next_run_at :=
                (if int (Suc att) > mr then now
                 else now + seconds (or_default (get_int cfg ''backoff_base'') 2 ^ Suc att)),
              last_error := Some (truncate_error error_msg)\<rparr>) s"
  by (simp add: mark_failed_def backoff_policy_def Let_def)

subsection \<open>Reservation\<close>

lemma oldest_None: "oldest xs = None \<longleftrightarrow> xs = []"
  by (cases xs) (auto split: option.splits)

lemma oldest_in_set: "oldest xs = Some c \<Longrightarrow> c \<in> set xs"
  by (induction xs arbitrary: c) (auto split: option.splits if_splits)

lemma oldest_least: "oldest xs = Some c \<Longrightarrow> j \<in> set xs \<Longrightarrow> created_at c \<le> created_at j"
proof (induction xs arbitrary: c)
  case Nil
  then show ?case by simp
next
  case (Cons a xs)
  show ?case
  proof (cases "oldest xs")
    case None
    then have "xs = []" by (simp add: oldest_None)
    with Cons.prems show ?thesis by simp
  next
    case (Some k)
    from Cons.IH [OF Some] have k: "j \<in> set xs \<Longrightarrow> created_at k \<le> created_at j" .
    from Cons.prems Some k show ?thesis by (auto split: if_splits)
  qed
qed

lemma filter_single:
  "distinct xs \<Longrightarrow> c \<in> set xs \<Longrightarrow> (\<And>x. x \<in> set xs \<Longrightarrow> P (g x) \<longleftrightarrow> x = c) \<Longrightarrow>
   filter P (map g xs) = [g c]"
proof (induction xs)
  case Nil
  then show ?case by simp
next
  case (Cons x xs)
  show ?case
  proof (cases "x = c")
    case True
    with Cons.prems have "\<And>y. y \<in> set xs \<Longrightarrow> \<not> P (g y)" by auto
    then have "filter P (map g xs) = []" by (simp add: filter_empty_conv)
    with True Cons.prems(3) [of x] show ?thesis by simp
  next
    case False
    with Cons show ?thesis by auto
  qed
qed

text \<open>With no eligible row the call returns \<open>None\<close> and changes nothing.\<close>

lemma reserve_job_none: "filter (eligible now) s = [] \<Longrightarrow> reserve_job now s = (None, s)"
  by (simp add: reserve_job_def)

text \<open>The row the \<open>UPDATE\<close> claims is an eligible row of least \<open>created_at\<close>. It is also the
  row returned, as long as no row already in state \<open>processing\<close> carries the caller's clock
  value as \<open>updated_at\<close>.\<close>

lemma reserve_job_returns_claimed:
  assumes d: "distinct (map job_id s)"
    and c: "oldest (filter (eligible now) s) = Some c"
    and fresh: "list_all (\<lambda>j. \<not> (state j = Processing \<and> updated_at j = now)) s"
  shows "reserve_job now s =
           (Some (claim now c), update_where (\<lambda>j. job_id j = job_id c) (claim now) s)"
proof -
  let ?g = "\<lambda>j. if job_id j = job_id c then claim now j else j"
  let ?P = "\<lambda>j. state j = Processing \<and> updated_at j = now"
  from c have cs: "c \<in> set s" using oldest_in_set [of "filter (eligible now) s" c] by auto
  from d have ds: "distinct s" by (simp add: distinct_map)
  have "filter ?P (map ?g s) = [?g c]"
  proof (rule filter_single [OF ds cs])
    fix x assume x: "x \<in> set s"
    show "?P (?g x) \<longleftrightarrow> x = c"
    proof (cases "job_id x = job_id c")
      case True
      with d x cs have "x = c" by (rule distinct_ids_same_row)
      then show ?thesis by (simp add: claim_def)
    next
      case False
      with fresh x show ?thesis by (auto simp: list_all_iff)
    qed
  qed
  then have "oldest (filter ?P (update_where (\<lambda>j. job_id j = job_id c) (claim now) s))
               = Some (claim now c)"
    by (simp add: update_where_def)
  with c show ?thesis by (simp add: reserve_job_def Let_def)
qed

text \<open>
  Claim C1. For N workers calling \<open>reserve_job\<close> against M eligible jobs, each job is to be
  returned to exactly one caller and \<open>min N M\<close> distinct jobs are to be returned. In the code
  this fails when two callers read the same clock value: with two eligible jobs \<open>k\<close> (older)
  and \<open>j\<close>, the first call claims and returns \<open>k\<close>; the second call claims \<open>j\<close>, but its
  \<open>SELECT\<close> finds both rows in state \<open>processing\<close> with that \<open>updated_at\<close> and returns
  the older one, \<open>k\<close>, again. One distinct job is returned to two callers, and \<open>j\<close> is left
  in \<open>processing\<close> with no caller holding it.
\<close>

theorem reserve_round_same_clock_duplicate:
  "map (map_option job_id)
     (fst (reserve_round [100, 100] [mk_job ''k'' Pending 1 1, mk_job ''j'' Pending 2 2]))
     = [Some ''k'', Some ''k'']
   \<and> map state
       (snd (reserve_round [100, 100] [mk_job ''k'' Pending 1 1, mk_job ''j'' Pending 2 2]))
     = [Processing, Processing]"
  by (simp add: reserve_job_def eligible_def update_where_def claim_def mk_job_def Let_def)

text \<open>
  Claim C2. \<open>reserve_job\<close> is to return the job whose row it updated, also when other jobs
  in state \<open>processing\<close> share the same \<open>updated_at\<close>. In the code the returned row is
  re-selected by state and timestamp, not by id: with a row \<open>k\<close> already \<open>processing\<close> and
  stamped with the caller's clock value, the call updates the eligible row \<open>j\<close> and returns
  the row \<open>k\<close>, which it did not touch.
\<close>

theorem reserve_job_returns_other_row:
  "reserve_job 100 [mk_job ''k'' Processing 1 100, mk_job ''j'' Pending 2 2]
     = (Some (mk_job ''k'' Processing 1 100),
        [mk_job ''k'' Processing 1 100, claim 100 (mk_job ''j'' Pending 2 2)])"
  by (simp add: reserve_job_def eligible_def update_where_def claim_def mk_job_def Let_def)

subsection \<open>State transitions\<close>

text \<open>
  Claim C3. Every state change made by a store operation is to be a transition of the state
  machine of the specification. In the code \<open>mark_failed\<close> and \<open>mark_completed\<close> update the
  row with the given id whatever its state: \<open>mark_failed\<close> moves a \<open>completed\<close> job and a
  \<open>dead\<close> job to \<open>failed\<close>, and \<open>mark_completed\<close> moves a \<open>pending\<close> job to
  \<open>completed\<close>; none of these is a transition of the machine.
\<close>

theorem mark_ops_leave_state_machine:
  "map state (mark_failed Map.empty 100 ''k'' 0 3 None [mk_job ''k'' Completed 1 1]) = [Failed]
   \<and> \<not> spec_transition Completed Failed
   \<and> map state (mark_failed Map.empty 100 ''k'' 0 3 None [mk_job ''k'' Dead 1 1]) = [Failed]
   \<and> \<not> spec_transition Dead Failed
   \<and> map state (mark_completed 100 ''k'' [mk_job ''k'' Pending 1 1]) = [Completed]
   \<and> \<not> spec_transition Pending Completed"
  by (simp add: mark_failed_unfold mark_completed_def update_where_def mk_job_def)

text \<open>
  Claim C5. \<open>mark_completed\<close> on a job that is already \<open>dead\<close> is to leave its state
  unchanged. In the code the \<open>UPDATE\<close> has no condition on the state, and the \<open>dead\<close> job
  becomes \<open>completed\<close>.
\<close>

theorem mark_completed_on_dead_job:
  "map state (mark_completed 100 ''k'' [mk_job ''k'' Dead 1 1]) = [Completed]"
  by (simp add: mark_completed_def update_where_def mk_job_def)

text \<open>On a missing id \<open>mark_completed\<close> changes nothing, and a second call changes no state.\<close>

lemma mark_completed_missing:
  "jid \<notin> set (map job_id s) \<Longrightarrow> mark_completed now jid s = s"
  unfolding mark_completed_def by (rule update_where_none) (auto simp: list_all_iff)

lemma mark_completed_twice:
  "map state (mark_completed now' jid (mark_completed now jid s))
     = map state (mark_completed now jid s)"
  by (simp add: mark_completed_def update_where_def)

subsection \<open>The backoff policy\<close>







subsection \<open>Retrying a dead job\<close>

text \<open>
  Claim C6. \<open>retry_dead_job\<close> changes a row if and only if it has the given id and is in
  state \<open>dead\<close>; that row becomes \<open>pending\<close> with \<open>attempts = 0\<close>, \<open>next_run_at = now\<close>
  and \<open>last_error\<close> null. Every other row is left as it is, so when no row with that id is
  \<open>dead\<close> (the job is missing or in another state) the whole store is unchanged. The
  operation has no failing branch.
\<close>

theorem retry_dead_job_spec:
  "length (retry_dead_job now jid s) = length s \<and>
   (\<forall>k < length s.
      (job_id (s ! k) = jid \<and> state (s ! k) = Dead \<longrightarrow>
         retry_dead_job now jid s ! k =
           (s ! k)\<lparr>state := Pending, attempts := 0, updated_at := now,
                   next_run_at := now, last_error := None\<rparr> \<and>
         state (retry_dead_job now jid s ! k) = Pending \<and>
         attempts (retry_dead_job now jid s ! k) = 0 \<and>
         next_run_at (retry_dead_job now jid s ! k) = now \<and>
         next_run_at (retry_dead_job now jid s ! k) \<le> now \<and>
         last_error (retry_dead_job now jid s ! k) = None) \<and>
      (\<not> (job_id (s ! k) = jid \<and> state (s ! k) = Dead) \<longrightarrow>
         retry_dead_job now jid s ! k = s ! k)) \<and>
   (list_all (\<lambda>j. \<not> (job_id j = jid \<and> state j = Dead)) s \<longrightarrow> retry_dead_job now jid s = s)"
  by (simp add: retry_dead_job_def length_update_where nth_update_where update_where_none)

theorem retry_dead_job_spec_witness:
  "retry_dead_job 100 ''k'' [mk_job ''k'' Dead 1 1, mk_job ''j'' Failed 2 2]
     = [(mk_job ''k'' Dead 1 1)\<lparr>state := Pending, attempts := 0, updated_at := 100,
                                  next_run_at := 100, last_error := None\<rparr>,
        mk_job ''j'' Failed 2 2]
   \<and> retry_dead_job 100 ''j'' [mk_job ''k'' Dead 1 1, mk_job ''j'' Failed 2 2]
     = [mk_job ''k'' Dead 1 1, mk_job ''j'' Failed 2 2]"
  using retry_dead_job_spec [of 100 "''k''" "[mk_job ''k'' Dead 1 1, mk_job ''j'' Failed 2 2]"]
    retry_dead_job_spec [of 100 "''j''" "[mk_job ''k'' Dead 1 1, mk_job ''j'' Failed 2 2]"]
  by (simp add: mk_job_def retry_dead_job_def update_where_def)

subsection \<open>Enqueue\<close>

text \<open>A payload without \<open>command\<close> raises (\<open>KeyError\<close> from the method, \<open>SystemExit\<close> from
  the command line) and a payload whose id is already in the table raises
  \<open>IntegrityError\<close>; no row is created. Otherwise one row is appended, \<open>pending\<close> and
  runnable at once.\<close>

lemma enqueue_missing_command:
  "p_command p = None \<Longrightarrow>
   enqueue cfg now p s = Inl KeyError \<and> cli_enqueue cfg now p s = Inl SystemExit"
  by (simp add: enqueue_def cli_enqueue_def Let_def)

lemma enqueue_duplicate_id:
  "p_command p = Some c \<Longrightarrow> p_id p = Some i \<Longrightarrow> i \<noteq> [] \<Longrightarrow> i \<in> set (map job_id s) \<Longrightarrow>
   enqueue cfg now p s = Inl IntegrityError"
  by (simp add: enqueue_def Let_def)



text \<open>
  Claim C7. A job enqueued without \<open>max_retries\<close> is to get the configured
  \<open>max_retries\<close>. In the code the default is \<open>cfg.get_int("max_retries") or 3\<close>: with the
  setting configured as 0 the new job gets 3, while a payload that itself says
  \<open>max_retries = 0\<close> is honoured.
\<close>

theorem enqueue_configured_zero_max_retries:
  "get_int [''max_retries'' \<mapsto> 0] ''max_retries'' = Some 0
   \<and> map_option max_retries
        (enqueued (enqueue [''max_retries'' \<mapsto> 0] 5000 (mk_payload None) []))
      = Some 3
   \<and> map_option max_retries
        (enqueued (enqueue [''max_retries'' \<mapsto> 0] 5000
           ((mk_payload None)\<lparr>p_max_retries := Some 0\<rparr>) []))
      = Some 0"
  by (simp add: enqueue_def enqueued_def get_int_def or_default_def mk_payload_def Let_def)

subsection \<open>The invariants of a row\<close>











subsection \<open>The stored error message\<close>








subsection \<open>Rows are never deleted or renamed\<close>







end
